theory Spec2Isabelle
  imports Complex_Main "HOL-Library.AList"
begin

section \<open>The data model of \<open>utils/localOrderBook.ts\<close>\<close>

text \<open>
  A price level is a pair of strings, price first. One side of the book is a
  JavaScript \<open>Map<string, string>\<close>: keys are compared as strings, an entry keeps the
  position of its first insertion, \<open>set\<close> on a present key overwrites the value in
  place and \<open>delete\<close> removes the entry. An association list with distinct keys
  under \<open>AList.update\<close> and \<open>AList.delete\<close> behaves the same way.

  Update ids are the sequence numbers of the exchange: natural numbers, held by
  the program in doubles (see \<open>jsAddOne\<close> below for the one place where it
  computes with them). A field of an event that is absent at run time (the
  stream handler passes on whatever \<open>JSON.parse\<close> returned) is \<open>None\<close>: for \<open>u\<close>
  that is the case \<open>typeof u !== 'number'\<close>, for \<open>U\<close> a missing (undefined) \<open>U\<close>,
  for \<open>bids\<close> and \<open>asks\<close> the case \<open>!Array.isArray(x)\<close>. A \<open>U\<close> that is present
  is a number, as the interface declares. The cursor
  \<open>lastUpdateId: number | null\<close> is an option.
\<close>

type_synonym PriceLevel = "string \<times> string"

type_synonym OrderBookSide = "(string \<times> string) list"

record DepthUpdateEvent =
  ev_U :: "nat option"
  ev_u :: "nat option"
  ev_bids :: "PriceLevel list option"
  ev_asks :: "PriceLevel list option"

record OrderBookSnapshot =
  snap_lastUpdateId :: nat
  snap_bids :: "PriceLevel list"
  snap_asks :: "PriceLevel list"

record LocalOrderBook =
  bids :: OrderBookSide
  asks :: OrderBookSide
  lastUpdateId :: "nat option"

definition newLocalOrderBook :: LocalOrderBook where
  "newLocalOrderBook = \<lparr>bids = [], asks = [], lastUpdateId = None\<rparr>"

section \<open>The test \<open>parseFloat(qty) === 0\<close>\<close>

text \<open>
  \<open>parseFloat\<close> skips leading white space, reads the longest prefix that is a
  decimal literal (sign, digits, fraction, exponent; or \<open>Infinity\<close>) and returns
  the double nearest to its value, \<open>NaN\<close> when there is no such prefix. The model
  keeps the value read exactly, as sign, digit string value \<open>m\<close> and decimal
  exponent \<open>e\<close> (the value is \<open>m * 10 ^ e\<close>), and rounds only where the source
  compares: the nearest double of a value is zero exactly when its magnitude is
  at most \<open>2 ^ -1075\<close>, half of the least positive double (the tie goes to the
  even significand, which is zero).

  Strings are byte strings in UTF-8. The white space and line terminators that
  \<open>parseFloat\<close> skips are: tab, line feed, vertical tab, form feed, carriage
  return and space (one byte each); U+00A0 (bytes C2 A0); and, in three bytes,
  U+1680, U+2000 to U+200A, U+2028, U+2029, U+202F, U+205F, U+3000 and U+FEFF.
\<close>

datatype js_number = NaN | Infinity bool | Decimal bool nat int

definition isWhiteSpace :: "char \<Rightarrow> bool" where
  "isWhiteSpace c = (of_char c \<in> {9, 10, 11, 12, 13, 32 :: nat})"

definition isWhiteSpace2 :: "char \<Rightarrow> char \<Rightarrow> bool" where
  "isWhiteSpace2 a b = (of_char a = (194 :: nat) \<and> of_char b = (160 :: nat))"

definition isWhiteSpace3 :: "char \<Rightarrow> char \<Rightarrow> char \<Rightarrow> bool" where
  "isWhiteSpace3 a b c =
     (let x = of_char a :: nat; y = of_char b :: nat; z = of_char c :: nat
      in (x = 225 \<and> y = 154 \<and> z = 128)
         \<or> (x = 226 \<and> y = 128 \<and> ((128 \<le> z \<and> z \<le> 138) \<or> z = 168 \<or> z = 169 \<or> z = 175))
         \<or> (x = 226 \<and> y = 129 \<and> z = 159)
         \<or> (x = 227 \<and> y = 128 \<and> z = 128)
         \<or> (x = 239 \<and> y = 187 \<and> z = 191))"

fun skipWhiteSpace :: "string \<Rightarrow> string" where
  "skipWhiteSpace (a # b # c # rest) =
     (if isWhiteSpace a then skipWhiteSpace (b # c # rest)
      else if isWhiteSpace2 a b then skipWhiteSpace (c # rest)
      else if isWhiteSpace3 a b c then skipWhiteSpace rest
      else a # b # c # rest)"
| "skipWhiteSpace [a, b] =
     (if isWhiteSpace a then skipWhiteSpace [b]
      else if isWhiteSpace2 a b then []
      else [a, b])"
| "skipWhiteSpace [a] = (if isWhiteSpace a then [] else [a])"
| "skipWhiteSpace [] = []"

definition isDigit :: "char \<Rightarrow> bool" where
  "isDigit c = (c \<in> set ''0123456789'')"

definition digitsValue :: "string \<Rightarrow> nat" where
  "digitsValue ds = foldl (\<lambda>a c. 10 * a + (of_char c - 48)) 0 ds"

definition takeDigits :: "string \<Rightarrow> string \<times> string" where
  "takeDigits s = (takeWhile isDigit s, dropWhile isDigit s)"

definition takeSign :: "string \<Rightarrow> bool \<times> string" where
  "takeSign s =
     (case s of
        [] \<Rightarrow> (False, [])
      | c # cs \<Rightarrow>
          if c = CHR ''-'' then (True, cs)
          else if c = CHR ''+'' then (False, cs)
          else (False, s))"

definition exponentPart :: "string \<Rightarrow> int" where
  "exponentPart s =
     (case s of
        [] \<Rightarrow> 0
      | c # cs \<Rightarrow>
          if c = CHR ''e'' \<or> c = CHR ''E'' then
            (case takeSign cs of
               (neg, r) \<Rightarrow>
                 (case takeDigits r of
                    (ds, _) \<Rightarrow>
                      if ds = [] then 0
                      else if neg then - int (digitsValue ds)
                      else int (digitsValue ds)))
          else 0)"

definition fractionPart :: "string \<Rightarrow> string \<times> string" where
  "fractionPart s =
     (case s of
        [] \<Rightarrow> ([], [])
      | c # cs \<Rightarrow> if c = CHR ''.'' then takeDigits cs else ([], s))"

definition parseFloat :: "string \<Rightarrow> js_number" where
  "parseFloat s =
     (case takeSign (skipWhiteSpace s) of
        (neg, r) \<Rightarrow>
          if take 8 r = ''Infinity'' then Infinity neg
          else
            (case takeDigits r of
               (ip, r1) \<Rightarrow>
                 (case fractionPart r1 of
                    (fp, r2) \<Rightarrow>
                      if ip = [] \<and> fp = [] then NaN
                      else Decimal neg (digitsValue (ip @ fp))
                             (exponentPart r2 - int (length fp)))))"

fun isZeroNumber :: "js_number \<Rightarrow> bool" where
  "isZeroNumber NaN = False"
| "isZeroNumber (Infinity neg) = False"
| "isZeroNumber (Decimal neg m e) =
     (m = 0 \<or> (e < 0 \<and> m * 2 ^ 1075 \<le> 10 ^ nat (- e)))"

definition isZeroQty :: "string \<Rightarrow> bool" where
  "isZeroQty qty = isZeroNumber (parseFloat qty)"

text \<open>The exact value of what \<open>parseFloat\<close> read, before any rounding.\<close>

fun mathValue :: "js_number \<Rightarrow> real option" where
  "mathValue NaN = None"
| "mathValue (Infinity neg) = None"
| "mathValue (Decimal neg m e) =
     Some ((if neg then - 1 else 1) * real m * 10 powi e)"

section \<open>\<open>LocalOrderBook\<close>\<close>

text \<open>\<open>setFromSnapshot\<close>: both maps are cleared, every level of the snapshot is
  \<open>set\<close> in order, and the cursor becomes the snapshot's \<open>lastUpdateId\<close>.\<close>

fun setLevels :: "PriceLevel list \<Rightarrow> OrderBookSide \<Rightarrow> OrderBookSide" where
  "setLevels [] side = side"
| "setLevels ((price, qty) # rest) side = setLevels rest (AList.update price qty side)"

definition setFromSnapshot :: "LocalOrderBook \<Rightarrow> OrderBookSnapshot \<Rightarrow> LocalOrderBook" where
  "setFromSnapshot b snapshot =
     b\<lparr>bids := setLevels (snap_bids snapshot) [],
       asks := setLevels (snap_asks snapshot) [],
       lastUpdateId := Some (snap_lastUpdateId snapshot)\<rparr>"

text \<open>The two loops of \<open>applyEvent\<close> over \<open>bids\<close> and \<open>asks\<close>.\<close>

fun applyLevels :: "PriceLevel list \<Rightarrow> OrderBookSide \<Rightarrow> OrderBookSide" where
  "applyLevels [] side = side"
| "applyLevels ((price, qty) # rest) side =
     applyLevels rest
       (if isZeroQty qty then AList.delete price side
        else AList.update price qty side)"

definition applySide :: "PriceLevel list option \<Rightarrow> OrderBookSide \<Rightarrow> OrderBookSide" where
  "applySide levels side =
     (case levels of None \<Rightarrow> side | Some ls \<Rightarrow> applyLevels ls side)"

text \<open>The part of \<open>applyEvent\<close> after the sequence checks.\<close>

definition applyUpdates :: "LocalOrderBook \<Rightarrow> DepthUpdateEvent \<Rightarrow> LocalOrderBook" where
  "applyUpdates b e =
     b\<lparr>bids := applySide (ev_bids e) (bids b),
       asks := applySide (ev_asks e) (asks b),
       lastUpdateId := (case ev_u e of None \<Rightarrow> lastUpdateId b | Some u \<Rightarrow> Some u)\<rparr>"

text \<open>The message pushed on a gap. Only its interpolated numbers matter here,
  so the decimal rendering of a number is by \<open>showNat\<close>.\<close>

fun showDigits :: "nat \<Rightarrow> nat \<Rightarrow> string" where
  "showDigits 0 n = []"
| "showDigits (Suc fuel) n =
     (if n < 10 then [char_of (48 + n)]
      else showDigits fuel (n div 10) @ [char_of (48 + n mod 10)])"

definition showNat :: "nat \<Rightarrow> string" where
  "showNat n = showDigits (Suc n) n"

definition gapMessage :: "nat \<Rightarrow> nat \<Rightarrow> string" where
  "gapMessage U next =
     ''Event U='' @ showNat U @ '' > lastUpdateId+1='' @ showNat next
       @ '', out of sequence. Restarting sync.''"

definition pushError :: "string list option \<Rightarrow> string \<Rightarrow> string list option" where
  "pushError errors msg =
     (case errors of None \<Rightarrow> None | Some errs \<Rightarrow> Some (errs @ [msg]))"

text \<open>
  \<open>lastUpdateId + 1\<close> is an addition of doubles: the sum is rounded to the nearest
  number with a 53-bit significand, ties to the even significand. Up to
  \<open>2 ^ 53\<close> it is exact. (The range of doubles ends near \<open>2 ^ 1024\<close>; no update
  id comes close.)
\<close>

fun bitLength :: "nat \<Rightarrow> nat" where
  "bitLength n = (if n = 0 then 0 else Suc (bitLength (n div 2)))"

declare bitLength.simps [simp del]

definition roundToDouble :: "nat \<Rightarrow> nat" where
  "roundToDouble n =
     (if n \<le> 2 ^ 53 then n
      else
        (let k = bitLength n - 53; q = n div 2 ^ k; r = n mod 2 ^ k
         in if 2 ^ k < 2 * r \<or> (2 * r = 2 ^ k \<and> odd q) then (q + 1) * 2 ^ k
            else q * 2 ^ k))"

definition jsAddOne :: "nat \<Rightarrow> nat" where
  "jsAddOne C = roundToDouble (C + 1)"

text \<open>
  \<open>applyEvent(event, errors?)\<close> returns nothing; the model returns the book and
  the optional \<open>errors\<close> array as the call leaves them. \<open>U > lastUpdateId + 1\<close> with
  \<open>U\<close> undefined is false in JavaScript.
\<close>

definition applyEvent ::
  "LocalOrderBook \<Rightarrow> DepthUpdateEvent \<Rightarrow> string list option
     \<Rightarrow> LocalOrderBook \<times> string list option" where
  "applyEvent b e errors =
     (case (ev_u e, lastUpdateId b) of
        (Some u, Some C) \<Rightarrow>
          if u < C then (b, errors)
          else
            (case ev_U e of
               Some U \<Rightarrow>
                 if U > jsAddOne C
                 then (b, pushError errors (gapMessage U (jsAddOne C)))
                 else (applyUpdates b e, errors)
             | None \<Rightarrow> (applyUpdates b e, errors))
      | _ \<Rightarrow> (applyUpdates b e, errors))"

section \<open>The controller of the depth-stream test\<close>

text \<open>
  The state the test closes over: the collected \<open>errors\<close>, the message counter,
  the buffer of events received before the snapshot is loaded, the flag
  \<open>snapshotReceived\<close> and the book. Console output is not part of the state;
  \<open>getTopBid\<close> and \<open>getTopAsk\<close> are called for that output only.
\<close>

record Controller =
  errors :: "string list"
  messageCount :: nat
  eventBuffer :: "DepthUpdateEvent list"
  snapshotReceived :: bool
  localOrderBook :: LocalOrderBook

definition initialController :: Controller where
  "initialController =
     \<lparr>errors = [], messageCount = 0, eventBuffer = [], snapshotReceived = False,
      localOrderBook = newLocalOrderBook\<rparr>"

text \<open>The test's own \<open>applyEvent(json)\<close>: it passes \<open>errors\<close> to the book.\<close>

definition ctlApplyEvent :: "Controller \<Rightarrow> DepthUpdateEvent \<Rightarrow> Controller" where
  "ctlApplyEvent c json =
     (case applyEvent (localOrderBook c) json (Some (errors c)) of
        (b, Some errs) \<Rightarrow> c\<lparr>errors := errs, localOrderBook := b\<rparr>
      | (b, None) \<Rightarrow> c\<lparr>localOrderBook := b\<rparr>)"

text \<open>The message handler given to \<open>wsClient.connect\<close>.\<close>

definition onMessage :: "Controller \<Rightarrow> DepthUpdateEvent \<Rightarrow> Controller" where
  "onMessage c json =
     (let c1 = c\<lparr>messageCount := messageCount c + 1\<rparr>
      in if \<not> snapshotReceived c1
         then c1\<lparr>eventBuffer := eventBuffer c1 @ [json]\<rparr>
         else ctlApplyEvent c1 json)"

fun onMessages :: "Controller \<Rightarrow> DepthUpdateEvent list \<Rightarrow> Controller" where
  "onMessages c [] = c"
| "onMessages c (json # rest) = onMessages (onMessage c json) rest"

text \<open>
  The environment of \<open>fetchAndSyncSnapshot\<close>. JavaScript runs the message handler
  only while the function waits, so the \<open>n\<close>-th \<open>await fetchRestSnapshot\<close> is the
  list of events delivered during that wait followed by the outcome of the
  request: a snapshot, or the rejection of the request, which leaves the function
  as an exception.
\<close>

datatype fetch_result = TransportError | Fetched OrderBookSnapshot

datatype sync_error = SnapshotFetchFailed

type_synonym Environment = "nat \<Rightarrow> DepthUpdateEvent list \<times> fetch_result"

text \<open>The condition of the re-fetch:
  \<open>eventBuffer.length > 0 && eventBuffer[0].U && snapshot.lastUpdateId < eventBuffer[0].U\<close>.
  A number is truthy when it is not zero.\<close>

definition snapshotStale :: "Controller \<Rightarrow> OrderBookSnapshot \<Rightarrow> bool" where
  "snapshotStale c snapshot =
     (case eventBuffer c of
        [] \<Rightarrow> False
      | e0 # _ \<Rightarrow>
          (case ev_U e0 of
             None \<Rightarrow> False
           | Some U0 \<Rightarrow> U0 \<noteq> 0 \<and> snap_lastUpdateId snapshot < U0))"

text \<open>The \<open>while (true)\<close> loop. It has no other exit than \<open>break\<close> and the
  exception of the request, so it is a partial function: \<open>None\<close> is a run that
  never leaves the loop.\<close>

partial_function (option) fetchLoop ::
  "Environment \<Rightarrow> nat \<Rightarrow> Controller \<Rightarrow> (sync_error + OrderBookSnapshot \<times> Controller) option" where
  "fetchLoop env n c =
     (case env n of
        (arrived, r) \<Rightarrow>
          (case r of
             TransportError \<Rightarrow> Some (Inl SnapshotFetchFailed)
           | Fetched snapshot \<Rightarrow>
               if snapshotStale (onMessages c arrived) snapshot
               then fetchLoop env (Suc n) (onMessages c arrived)
               else Some (Inr (snapshot, onMessages c arrived))))"

text \<open>The discard loop
  \<open>while (i < eventBuffer.length && lastUpdateId !== null && eventBuffer[i].u <= lastUpdateId) i++\<close>;
  a comparison with an undefined \<open>u\<close> is false.\<close>

definition alreadyInSnapshot :: "LocalOrderBook \<Rightarrow> DepthUpdateEvent \<Rightarrow> bool" where
  "alreadyInSnapshot b e =
     (case (lastUpdateId b, ev_u e) of
        (Some L, Some u) \<Rightarrow> u \<le> L
      | _ \<Rightarrow> False)"

fun ctlApplyEvents :: "Controller \<Rightarrow> DepthUpdateEvent list \<Rightarrow> Controller" where
  "ctlApplyEvents c [] = c"
| "ctlApplyEvents c (json # rest) = ctlApplyEvents (ctlApplyEvent c json) rest"

text \<open>What follows the loop: load the snapshot, raise the flag, skip the
  buffered events the snapshot already holds, apply the others in order, empty
  the buffer. Nothing waits here, so no message arrives in between.\<close>

definition syncFromSnapshot :: "Controller \<Rightarrow> OrderBookSnapshot \<Rightarrow> Controller" where
  "syncFromSnapshot c snapshot =
     (let c1 = c\<lparr>localOrderBook := setFromSnapshot (localOrderBook c) snapshot\<rparr>;
          c2 = c1\<lparr>snapshotReceived := True\<rparr>;
          remaining = dropWhile (alreadyInSnapshot (localOrderBook c2)) (eventBuffer c2);
          c3 = ctlApplyEvents c2 remaining
      in c3\<lparr>eventBuffer := []\<rparr>)"

definition fetchAndSyncSnapshot :: "Environment \<Rightarrow> Controller \<Rightarrow> (sync_error + Controller) option" where
  "fetchAndSyncSnapshot env c =
     (case fetchLoop env 0 c of
        None \<Rightarrow> None
      | Some (Inl err) \<Rightarrow> Some (Inl err)
      | Some (Inr (snapshot, c1)) \<Rightarrow> Some (Inr (syncFromSnapshot c1 snapshot)))"

text \<open>A sequence of calls of \<open>applyEvent\<close> on one book, sharing one \<open>errors\<close> array.\<close>

fun applyEvents ::
  "LocalOrderBook \<Rightarrow> DepthUpdateEvent list \<Rightarrow> string list option
     \<Rightarrow> LocalOrderBook \<times> string list option" where
  "applyEvents b [] errs = (b, errs)"
| "applyEvents b (e # es) errs =
     (case applyEvent b e errs of (b1, errs1) \<Rightarrow> applyEvents b1 es errs1)"

section \<open>Predicates and reference definitions used by the properties\<close>

text \<open>A side holds no entry whose quantity passes the zero test of \<open>applyEvent\<close>.\<close>

definition noZeroLevels :: "PriceLevel list \<Rightarrow> bool" where
  "noZeroLevels levels = list_all (\<lambda>(price, qty). \<not> isZeroQty qty) levels"

definition noZeroBook :: "LocalOrderBook \<Rightarrow> bool" where
  "noZeroBook b = (noZeroLevels (bids b) \<and> noZeroLevels (asks b))"

text \<open>
  Two readings of "the quantity is zero", both on the exact decimal value of the
  quantity string: it is the number zero; or its nearest double is zero, which
  is the case for zero and for every value of magnitude at most \<open>2 ^ -1075\<close>.
\<close>

definition decimalZero :: "string \<Rightarrow> bool" where
  "decimalZero qty = (mathValue (parseFloat qty) = Some 0)"

definition readsAsZero :: "string \<Rightarrow> bool" where
  "readsAsZero qty = (\<exists>v. mathValue (parseFloat qty) = Some v \<and> \<bar>v\<bar> \<le> 1 / 2 ^ 1075)"

text \<open>No quantity of the list is a nonzero number that a double cannot tell
  from zero.\<close>

definition noUnderflow :: "PriceLevel list \<Rightarrow> bool" where
  "noUnderflow levels = list_all (\<lambda>(price, qty). readsAsZero qty \<longrightarrow> decimalZero qty) levels"

text \<open>
  The rule of the specification for one side, on a plain mapping from price to
  quantity: for every pair of the event in order, a quantity that is exactly
  zero removes the price, any other quantity sets or overwrites it. It is
  compared below with the loops of the source.
\<close>

definition spec_applyLevel :: "(string \<rightharpoonup> string) \<Rightarrow> PriceLevel \<Rightarrow> (string \<rightharpoonup> string)" where
  "spec_applyLevel side level =
     (case level of (price, qty) \<Rightarrow>
        if decimalZero qty then side(price := None) else side(price \<mapsto> qty))"

definition spec_applyLevels ::
  "(string \<rightharpoonup> string) \<Rightarrow> PriceLevel list \<Rightarrow> (string \<rightharpoonup> string)" where
  "spec_applyLevels side levels = foldl spec_applyLevel side levels"

text \<open>
  What a side holds once every level of a list has been applied to it, price by
  price: a price the list does not name keeps its entry; for a price the list
  names, the last level with that price decides, removing the entry when its
  quantity reads as zero and storing that quantity otherwise.
\<close>

definition allLevelsApplied ::
  "(string \<rightharpoonup> string) \<Rightarrow> PriceLevel list \<Rightarrow> (string \<rightharpoonup> string)" where
  "allLevelsApplied side levels =
     (\<lambda>price. case map_of (rev levels) price of
                 None \<Rightarrow> side price
               | Some qty \<Rightarrow> if readsAsZero qty then None else Some qty)"

definition allLevelsAppliedOpt ::
  "(string \<rightharpoonup> string) \<Rightarrow> PriceLevel list option \<Rightarrow> (string \<rightharpoonup> string)" where
  "allLevelsAppliedOpt side levels =
     (case levels of None \<Rightarrow> side | Some ls \<Rightarrow> allLevelsApplied side ls)"

section \<open>Example inputs\<close>

text \<open>The snapshot of the end-to-end scenario and the book loaded from it.\<close>

definition exampleSnapshot :: OrderBookSnapshot where
  "exampleSnapshot =
     \<lparr>snap_lastUpdateId = 100, snap_bids = [(''10.0'', ''1'')], snap_asks = [(''10.1'', ''1'')]\<rparr>"

definition exampleBook :: LocalOrderBook where
  "exampleBook = setFromSnapshot newLocalOrderBook exampleSnapshot"

definition zeroSnapshot :: OrderBookSnapshot where
  "zeroSnapshot =
     \<lparr>snap_lastUpdateId = 100, snap_bids = [(''10.0'', ''0'')], snap_asks = [(''10.1'', ''1'')]\<rparr>"

definition snapshot40 :: OrderBookSnapshot where
  "snapshot40 = exampleSnapshot\<lparr>snap_lastUpdateId := 40\<rparr>"

definition snapshot60 :: OrderBookSnapshot where
  "snapshot60 = exampleSnapshot\<lparr>snap_lastUpdateId := 60\<rparr>"

definition gapEvent :: DepthUpdateEvent where
  "gapEvent =
     \<lparr>ev_U = Some 105, ev_u = Some 110, ev_bids = Some [(''10.0'', ''0'')], ev_asks = Some []\<rparr>"

definition followingEvent :: DepthUpdateEvent where
  "followingEvent =
     \<lparr>ev_U = Some 111, ev_u = Some 115, ev_bids = Some [(''10.0'', ''0'')], ev_asks = Some []\<rparr>"

definition removalEvent :: DepthUpdateEvent where
  "removalEvent =
     \<lparr>ev_U = Some 95, ev_u = Some 101, ev_bids = Some [(''10.0'', ''0'')], ev_asks = Some []\<rparr>"

definition underflowEvent :: DepthUpdateEvent where
  "underflowEvent =
     \<lparr>ev_U = Some 101, ev_u = Some 101, ev_bids = Some [(''10.0'', ''1e-400'')],
      ev_asks = Some []\<rparr>"

definition tinyQuantityEvent :: DepthUpdateEvent where
  "tinyQuantityEvent =
     \<lparr>ev_U = Some 101, ev_u = Some 102, ev_bids = Some [(''9.5'', ''1e-400'')],
      ev_asks = Some [(''10.1'', ''1e-400'')]\<rparr>"

definition unorderedEvent :: DepthUpdateEvent where
  "unorderedEvent =
     \<lparr>ev_U = Some 500, ev_u = Some 400,
      ev_bids = Some [(''10.0'', ''1''), (''9.9'', ''2''), (''9.8'', ''3''), (''9.9'', ''0'')],
      ev_asks = Some [(''10.1'', ''2''), (''10.2'', ''5''), (''10.1'', ''4'')]\<rparr>"

definition noU_event :: DepthUpdateEvent where
  "noU_event =
     \<lparr>ev_U = None, ev_u = Some 200, ev_bids = Some [(''10.0'', ''2'')], ev_asks = None\<rparr>"

definition no_u_event :: DepthUpdateEvent where
  "no_u_event =
     \<lparr>ev_U = Some 101, ev_u = None, ev_bids = Some [(''10.0'', ''2'')], ev_asks = Some []\<rparr>"

definition replayEvents :: "DepthUpdateEvent list" where
  "replayEvents =
     [\<lparr>ev_U = Some 95, ev_u = Some 101, ev_bids = Some [(''10.0'', ''0'')], ev_asks = Some []\<rparr>,
      \<lparr>ev_U = Some 90, ev_u = Some 94, ev_bids = Some [(''9.0'', ''7'')], ev_asks = Some []\<rparr>,
      \<lparr>ev_U = Some 102, ev_u = Some 104, ev_bids = Some [(''9.9'', ''2'')],
        ev_asks = Some [(''10.1'', ''0.00000000''), (''10.2'', ''3'')]\<rparr>]"

definition bufferedEvent50 :: DepthUpdateEvent where
  "bufferedEvent50 =
     \<lparr>ev_U = Some 50, ev_u = Some 55, ev_bids = Some [(''9.9'', ''4'')], ev_asks = Some []\<rparr>"

definition bufferedEvent56 :: DepthUpdateEvent where
  "bufferedEvent56 =
     \<lparr>ev_U = Some 56, ev_u = Some 61, ev_bids = Some [(''10.0'', ''0'')], ev_asks = Some []\<rparr>"

text \<open>Controllers: live on the example book; buffering one event; buffering two
  events; and synchronised from \<open>snapshot60\<close> after those two events.\<close>

definition liveController :: Controller where
  "liveController = syncFromSnapshot initialController exampleSnapshot"

definition bufferingController :: Controller where
  "bufferingController = onMessage initialController bufferedEvent50"

definition refetchedController :: Controller where
  "refetchedController =
     \<lparr>errors = [], messageCount = 2, eventBuffer = [bufferedEvent50, bufferedEvent56],
      snapshotReceived = False, localOrderBook = newLocalOrderBook\<rparr>"

definition syncedController :: Controller where
  "syncedController =
     \<lparr>errors = [], messageCount = 2, eventBuffer = [], snapshotReceived = True,
      localOrderBook = \<lparr>bids = [], asks = [(''10.1'', ''1'')], lastUpdateId = Some 61\<rparr>\<rparr>"

text \<open>Snapshot sources: one that always answers with update id 40, one that
  lags for ever while events keep arriving, one whose second answer is fresh,
  and one whose request fails.\<close>

definition staleEnvironment :: Environment where
  "staleEnvironment n = ([], Fetched snapshot40)"

definition laggingEnvironment :: Environment where
  "laggingEnvironment n =
     ([bufferedEvent56], Fetched (snapshot40\<lparr>snap_lastUpdateId := 40 + n mod 2\<rparr>))"

definition refetchEnvironment :: Environment where
  "refetchEnvironment n =
     (if n = 0 then ([bufferedEvent50, bufferedEvent56], Fetched snapshot40)
      else ([], Fetched snapshot60))"

definition failingEnvironment :: Environment where
  "failingEnvironment n = ([], TransportError)"

section \<open>Properties of the book\<close>

lemmas parse_defs = isZeroQty_def parseFloat_def takeSign_def takeDigits_def fractionPart_def
  exponentPart_def digitsValue_def isDigit_def isWhiteSpace_def isWhiteSpace2_def
  isWhiteSpace3_def

lemmas run_defs = applyEvent_def jsAddOne_def roundToDouble_def

lemma exampleBook_eq:
  "exampleBook = \<lparr>bids = [(''10.0'', ''1'')], asks = [(''10.1'', ''1'')], lastUpdateId = Some 100\<rparr>"
  by (simp add: exampleBook_def setFromSnapshot_def newLocalOrderBook_def exampleSnapshot_def)

lemma jsAddOne_exact: "C < 2 ^ 53 \<Longrightarrow> jsAddOne C = C + 1"
  by (simp add: jsAddOne_def roundToDouble_def)

text \<open>Above \<open>2 ^ 53\<close> the sum rounds: \<open>2 ^ 53 + 2\<close> plus one is \<open>2 ^ 53 + 4\<close>.\<close>

lemma jsAddOne_rounds: "jsAddOne 9007199254740994 = 9007199254740996"
proof -
  have "bitLength 9007199254740995 = 54"
    by (simp add: bitLength.simps)
  then show ?thesis
    by (simp add: jsAddOne_def roundToDouble_def Let_def)
qed

text \<open>White space beyond ASCII is skipped too: a no-break space before \<open>0\<close>.\<close>

lemma isZeroQty_after_no_break_space:
  "isZeroQty (char_of (194 :: nat) # char_of (160 :: nat) # ''0'')"
  by (simp add: parse_defs)

lemma gapMessage_example:
  "gapMessage 105 101 = ''Event U=105 > lastUpdateId+1=101, out of sequence. Restarting sync.''"
  by code_simp

subsection \<open>The zero test in exact terms\<close>

lemma zero_test_real:
  fixes N :: nat
  assumes N: "1 < N"
  shows "(m = 0 \<or> (e < 0 \<and> m * N \<le> 10 ^ nat (- e))) \<longleftrightarrow> real m * 10 powi e \<le> 1 / real N"
proof (cases "e < 0")
  case True
  define k where "k = nat (- e)"
  have e: "e = - int k" using True by (simp add: k_def)
  have Npos: "0 < real N" using N by simp
  have "real m * 10 powi e = real m / 10 ^ k"
    by (simp add: e power_int_minus divide_inverse)
  also have "\<dots> \<le> 1 / real N \<longleftrightarrow> real m * real N \<le> 10 ^ k"
    using Npos by (simp add: field_simps)
  also have "\<dots> \<longleftrightarrow> real (m * N) \<le> real (10 ^ k)"
    by simp
  also have "\<dots> \<longleftrightarrow> m * N \<le> 10 ^ k"
    by (rule of_nat_le_iff)
  finally have main: "real m * 10 powi e \<le> 1 / real N \<longleftrightarrow> m * N \<le> 10 ^ k" .
  have "m = 0 \<Longrightarrow> m * N \<le> 10 ^ k" by simp
  then show ?thesis using True main by (auto simp: k_def)
next
  case False
  have pw: "(10::real) powi e = 10 ^ nat e"
    using False by (simp add: power_int_def)
  have small: "1 / real N < 1" using N by simp
  show ?thesis
  proof (cases "m = 0")
    case True
    then show ?thesis by simp
  next
    case m: False
    then have "1 \<le> real m" by simp
    moreover have "(1::real) \<le> 10 ^ nat e" by simp
    ultimately have "1 * 1 \<le> real m * 10 ^ nat e"
      by (rule mult_mono) simp_all
    then have "\<not> real m * 10 powi e \<le> 1 / real N"
      using small by (simp add: pw)
    then show ?thesis using False m by simp
  qed
qed

lemma isZeroNumber_Decimal:
  "isZeroNumber (Decimal neg m e) \<longleftrightarrow> real m * 10 powi e \<le> 1 / 2 ^ 1075"
proof -
  define N :: nat where "N = 2 ^ 1075"
  have N: "1 < N" unfolding N_def by (rule one_less_power) simp_all
  have r: "real N = 2 ^ 1075" unfolding N_def by (simp only: of_nat_power of_nat_numeral)
  have "isZeroNumber (Decimal neg m e) \<longleftrightarrow> (m = 0 \<or> (e < 0 \<and> m * N \<le> 10 ^ nat (- e)))"
    unfolding N_def by (simp only: isZeroNumber.simps)
  also have "\<dots> \<longleftrightarrow> real m * 10 powi e \<le> 1 / real N"
    by (rule zero_test_real [OF N])
  finally show ?thesis by (simp only: r)
qed

lemma isZeroNumber_mathValue:
  "isZeroNumber x \<longleftrightarrow> (\<exists>v. mathValue x = Some v \<and> \<bar>v\<bar> \<le> 1 / 2 ^ 1075)"
proof (cases x)
  case NaN
  then show ?thesis by simp
next
  case (Infinity neg)
  then show ?thesis by simp
next
  case (Decimal neg m e)
  have nonneg: "0 \<le> real m * 10 powi e" by simp
  have "\<bar>(if neg then - 1 else 1) * real m * 10 powi e\<bar> = real m * 10 powi e"
    using nonneg by (simp add: abs_mult)
  then show ?thesis
    unfolding Decimal
    by (simp only: isZeroNumber_Decimal mathValue.simps option.inject simp_thms ex_simps)
qed

lemma parseFloat_underflow: "parseFloat ''1e-400'' = Decimal False 1 (- 400)"
  by (simp add: parse_defs)

lemma isZeroQty_underflow: "isZeroQty ''1e-400''"
  by (simp add: isZeroQty_def parseFloat_underflow)

lemma isZeroQty_readsAsZero: "isZeroQty qty \<longleftrightarrow> readsAsZero qty"
  unfolding isZeroQty_def readsAsZero_def by (rule isZeroNumber_mathValue)

lemma decimalZero_readsAsZero: "decimalZero qty \<Longrightarrow> readsAsZero qty"
  by (simp add: decimalZero_def readsAsZero_def)

lemma not_decimalZero_underflow: "\<not> decimalZero ''1e-400''"
  by (simp add: decimalZero_def parseFloat_underflow)

subsection \<open>Sequence checks\<close>



lemma map_of_applyLevels_last:
  "map_of (applyLevels levels side) price =
     (case map_of (rev levels) price of
        None \<Rightarrow> map_of side price
      | Some qty \<Rightarrow> if isZeroQty qty then None else Some qty)"
proof (induction levels side rule: applyLevels.induct)
  case (1 side)
  then show ?case by simp
next
  case (2 p q rest side)
  show ?case
    by (simp add: "2.IH" map_add_def AList.update_conv' AList.delete_conv'
        split: option.splits)
qed

lemma map_of_applyLevels_all:
  "map_of (applyLevels levels side) = allLevelsApplied (map_of side) levels"
  by (rule ext)
    (simp add: map_of_applyLevels_last allLevelsApplied_def isZeroQty_readsAsZero
      split: option.splits)

lemma map_of_applySide_all:
  "map_of (applySide levels side) = allLevelsAppliedOpt (map_of side) levels"
  by (cases levels) (simp_all add: applySide_def allLevelsAppliedOpt_def map_of_applyLevels_all)

lemma distinct_applyLevels:
  "distinct (map fst side) \<Longrightarrow> distinct (map fst (applyLevels levels side))"
  by (induction levels side rule: applyLevels.induct)
    (simp_all add: AList.distinct_update AList.distinct_delete)

lemma distinct_applySide:
  "distinct (map fst side) \<Longrightarrow> distinct (map fst (applySide levels side))"
  by (cases levels) (simp_all add: applySide_def distinct_applyLevels)

lemma applyEvent_uninitialized:
  assumes "lastUpdateId b = None"
  shows "applyEvent b e sink =
           (b\<lparr>bids := applySide (ev_bids e) (bids b),
              asks := applySide (ev_asks e) (asks b),
              lastUpdateId := ev_u e\<rparr>, sink)"
  using assms by (cases "ev_u e") (simp_all add: applyEvent_def applyUpdates_def)

text \<open>
  C10. On a book that has no cursor yet, \<open>applyEvent\<close> makes no sequence check:
  whatever \<open>U\<close> and \<open>u\<close> are, nothing is reported, the cursor becomes the event's
  \<open>u\<close> (it stays unset when the event has none), and every level of the event has
  been applied to its side: a price the event does not name keeps its entry,
  and for a price it names the last level with that price decides, by removal
  when its quantity reads as zero and by storing that quantity otherwise. A side
  the event does not carry as an array is left as it is, and no price is stored
  twice.
\<close>

theorem uninitialized_no_sequence_check:
  assumes "lastUpdateId b = None"
  shows "snd (applyEvent b e sink) = sink
         \<and> lastUpdateId (fst (applyEvent b e sink)) = ev_u e
         \<and> map_of (bids (fst (applyEvent b e sink)))
             = allLevelsAppliedOpt (map_of (bids b)) (ev_bids e)
         \<and> map_of (asks (fst (applyEvent b e sink)))
             = allLevelsAppliedOpt (map_of (asks b)) (ev_asks e)
         \<and> (ev_bids e = None \<longrightarrow> bids (fst (applyEvent b e sink)) = bids b)
         \<and> (ev_asks e = None \<longrightarrow> asks (fst (applyEvent b e sink)) = asks b)
         \<and> (distinct (map fst (bids b))
              \<longrightarrow> distinct (map fst (bids (fst (applyEvent b e sink)))))
         \<and> (distinct (map fst (asks b))
              \<longrightarrow> distinct (map fst (asks (fst (applyEvent b e sink)))))"
  by (simp add: applyEvent_uninitialized [OF assms] map_of_applySide_all distinct_applySide)
    (simp add: applySide_def)

lemma unorderedEvent_result:
  "applyEvent newLocalOrderBook unorderedEvent (Some []) =
     (\<lparr>bids = [(''10.0'', ''1''), (''9.8'', ''3'')],
       asks = [(''10.1'', ''4''), (''10.2'', ''5'')],
       lastUpdateId = Some 400\<rparr>, Some [])"
  by (simp add: applyEvent_def newLocalOrderBook_def unorderedEvent_def applyUpdates_def
      applySide_def parse_defs)

theorem uninitialized_no_sequence_check_witness:
  "lastUpdateId newLocalOrderBook = None
   \<and> ev_U unorderedEvent = Some 500 \<and> ev_u unorderedEvent = Some 400
   \<and> applyEvent newLocalOrderBook unorderedEvent (Some []) =
       (\<lparr>bids = [(''10.0'', ''1''), (''9.8'', ''3'')],
         asks = [(''10.1'', ''4''), (''10.2'', ''5'')],
         lastUpdateId = Some 400\<rparr>, Some [])
   \<and> allLevelsAppliedOpt (map_of (bids newLocalOrderBook)) (ev_bids unorderedEvent) ''10.0''
       = Some ''1''
   \<and> allLevelsAppliedOpt (map_of (bids newLocalOrderBook)) (ev_bids unorderedEvent) ''9.9''
       = None
   \<and> allLevelsAppliedOpt (map_of (bids newLocalOrderBook)) (ev_bids unorderedEvent) ''9.8''
       = Some ''3''
   \<and> allLevelsAppliedOpt (map_of (asks newLocalOrderBook)) (ev_asks unorderedEvent) ''10.1''
       = Some ''4''
   \<and> allLevelsAppliedOpt (map_of (asks newLocalOrderBook)) (ev_asks unorderedEvent) ''10.2''
       = Some ''5''"
proof -
  have h: "lastUpdateId newLocalOrderBook = None" by (simp add: newLocalOrderBook_def)
  note w = uninitialized_no_sequence_check [OF h, of unorderedEvent "Some []"]
  have b: "map_of (bids (fst (applyEvent newLocalOrderBook unorderedEvent (Some []))))
             = allLevelsAppliedOpt (map_of (bids newLocalOrderBook)) (ev_bids unorderedEvent)"
    and a: "map_of (asks (fst (applyEvent newLocalOrderBook unorderedEvent (Some []))))
             = allLevelsAppliedOpt (map_of (asks newLocalOrderBook)) (ev_asks unorderedEvent)"
    using w by blast+
  show ?thesis
    unfolding b [symmetric] a [symmetric]
    by (simp add: unorderedEvent_result h) (simp add: unorderedEvent_def)
qed

lemma applyEvent_cursor:
  assumes "lastUpdateId b = Some C"
  shows "lastUpdateId (fst (applyEvent b e sink)) = Some C
         \<or> (\<exists>u. ev_u e = Some u \<and> C \<le> u \<and> lastUpdateId (fst (applyEvent b e sink)) = Some u)"
  using assms
  by (auto simp: applyEvent_def applyUpdates_def split: option.splits)

lemma applyEvents_cursor:
  "lastUpdateId b = Some C \<Longrightarrow>
     \<exists>C'. lastUpdateId (fst (applyEvents b es sink)) = Some C' \<and> C \<le> C'"
proof (induction es arbitrary: b C sink)
  case Nil
  then show ?case by simp
next
  case (Cons e es)
  obtain b1 sink1 where step: "applyEvent b e sink = (b1, sink1)"
    by (cases "applyEvent b e sink")
  from applyEvent_cursor [OF Cons.prems, of e sink] step
  obtain C1 where C1: "lastUpdateId b1 = Some C1" "C \<le> C1"
    by auto
  from Cons.IH [OF C1(1), of sink1]
  obtain C' where "lastUpdateId (fst (applyEvents b1 es sink1)) = Some C'" "C1 \<le> C'"
    by blast
  with C1(2) step show ?case by auto
qed

text \<open>
  C7. On an initialized book the cursor never decreases: one call of
  \<open>applyEvent\<close> leaves it as it is or sets it to the event's \<open>u\<close>, which is then at
  least the cursor; hence after any sequence of calls the cursor is at least
  what it was.
\<close>

theorem lastUpdateId_nondecreasing:
  assumes "lastUpdateId b = Some C"
  shows "(lastUpdateId (fst (applyEvent b e sink)) = Some C
          \<or> (\<exists>u. ev_u e = Some u \<and> C \<le> u
                \<and> lastUpdateId (fst (applyEvent b e sink)) = Some u))
         \<and> (\<exists>C'. lastUpdateId (fst (applyEvents b es sink)) = Some C' \<and> C \<le> C')"
  using applyEvent_cursor [OF assms] applyEvents_cursor [OF assms] by blast

lemma replay_result:
  "applyEvents exampleBook replayEvents (Some []) =
     (\<lparr>bids = [(''9.9'', ''2'')], asks = [(''10.2'', ''3'')], lastUpdateId = Some 104\<rparr>, Some [])"
  by (simp add: exampleBook_eq replayEvents_def run_defs applyUpdates_def applySide_def
      parse_defs)

theorem lastUpdateId_nondecreasing_witness:
  "lastUpdateId exampleBook = Some 100
   \<and> lastUpdateId (fst (applyEvent exampleBook (hd replayEvents) (Some []))) = Some 101
   \<and> lastUpdateId (fst (applyEvents exampleBook replayEvents (Some []))) = Some 104"
  using lastUpdateId_nondecreasing [of exampleBook 100 "hd replayEvents" "Some []" replayEvents]
  by (simp add: replay_result)
    (simp add: exampleBook_eq replayEvents_def run_defs applyUpdates_def)

subsection \<open>Applying the levels of an event\<close>

lemma isZeroQty_decimalZero:
  "readsAsZero qty \<longrightarrow> decimalZero qty \<Longrightarrow> isZeroQty qty \<longleftrightarrow> decimalZero qty"
  using decimalZero_readsAsZero isZeroQty_readsAsZero by blast

lemma map_of_applyLevels_spec:
  "noUnderflow levels \<Longrightarrow> map_of (applyLevels levels side) = spec_applyLevels (map_of side) levels"
proof (induction levels side rule: applyLevels.induct)
  case (1 side)
  then show ?case by (simp add: spec_applyLevels_def)
next
  case (2 price qty rest side)
  from "2.prems" have q: "readsAsZero qty \<longrightarrow> decimalZero qty" and r: "noUnderflow rest"
    by (simp_all add: noUnderflow_def)
  have z: "isZeroQty qty \<longleftrightarrow> decimalZero qty" by (rule isZeroQty_decimalZero [OF q])
  show ?case
    using "2.IH" [OF r]
    by (simp add: z spec_applyLevels_def spec_applyLevel_def AList.update_conv'
        AList.delete_conv')
qed

lemma applyEvent_contiguous:
  assumes "lastUpdateId b = Some C" and "C < 2 ^ 53" and "ev_u e = Some u" and "C \<le> u"
    and "ev_U e = Some U" and "U \<le> C + 1" and "ev_bids e = Some bs" and "ev_asks e = Some ks"
  shows "applyEvent b e sink =
           (b\<lparr>bids := applyLevels bs (bids b), asks := applyLevels ks (asks b),
              lastUpdateId := Some u\<rparr>, sink)"
  using assms by (simp add: applyEvent_def applyUpdates_def applySide_def jsAddOne_exact)

text \<open>
  C8, as the code has it. On an initialized book with cursor \<open>C\<close> below \<open>2 ^ 53\<close>,
  an event with \<open>u \<ge> C\<close> and \<open>U \<le> C + 1\<close> is applied: nothing is reported, the
  cursor becomes \<open>u\<close>, no price is stored twice, and on each side every level has
  been applied in order, a level removing its price when its quantity reads as
  zero (it is zero, or it is a nonzero value of magnitude at most \<open>2 ^ -1075\<close>)
  and setting or overwriting it otherwise. When no quantity of the event is such
  an underflowing value, that is the rule of the specification: remove on a
  quantity of exactly zero, set or overwrite otherwise. A level of quantity zero
  for an absent price changes nothing; for a present price it removes the entry.
\<close>

theorem contiguous_event_applied:
  assumes "lastUpdateId b = Some C" and "C < 2 ^ 53" and "ev_u e = Some u" and "C \<le> u"
    and "ev_U e = Some U" and "U \<le> C + 1" and "ev_bids e = Some bs" and "ev_asks e = Some ks"
  shows "snd (applyEvent b e sink) = sink
         \<and> lastUpdateId (fst (applyEvent b e sink)) = Some u
         \<and> map_of (bids (fst (applyEvent b e sink))) = allLevelsApplied (map_of (bids b)) bs
         \<and> map_of (asks (fst (applyEvent b e sink))) = allLevelsApplied (map_of (asks b)) ks
         \<and> (noUnderflow bs
              \<longrightarrow> map_of (bids (fst (applyEvent b e sink))) = spec_applyLevels (map_of (bids b)) bs)
         \<and> (noUnderflow ks
              \<longrightarrow> map_of (asks (fst (applyEvent b e sink))) = spec_applyLevels (map_of (asks b)) ks)
         \<and> (distinct (map fst (bids b))
              \<longrightarrow> distinct (map fst (bids (fst (applyEvent b e sink)))))
         \<and> (distinct (map fst (asks b))
              \<longrightarrow> distinct (map fst (asks (fst (applyEvent b e sink)))))
         \<and> (decimalZero qty \<and> price \<notin> fst ` set side \<longrightarrow> applyLevels [(price, qty)] side = side)
         \<and> (decimalZero qty \<longrightarrow> map_of (applyLevels [(price, qty)] side) price = None)
         \<and> (readsAsZero qty \<longrightarrow> map_of (applyLevels [(price, qty)] side) price = None)
         \<and> (\<not> readsAsZero qty \<longrightarrow> map_of (applyLevels [(price, qty)] side) price = Some qty)"
proof -
  have single: "(decimalZero qty \<and> price \<notin> fst ` set side \<longrightarrow> applyLevels [(price, qty)] side = side)
         \<and> (decimalZero qty \<longrightarrow> map_of (applyLevels [(price, qty)] side) price = None)
         \<and> (readsAsZero qty \<longrightarrow> map_of (applyLevels [(price, qty)] side) price = None)
         \<and> (\<not> readsAsZero qty \<longrightarrow> map_of (applyLevels [(price, qty)] side) price = Some qty)"
    using decimalZero_readsAsZero [of qty]
    by (auto simp: isZeroQty_readsAsZero AList.update_conv' AList.delete_conv')
  have whole: "snd (applyEvent b e sink) = sink
         \<and> lastUpdateId (fst (applyEvent b e sink)) = Some u
         \<and> map_of (bids (fst (applyEvent b e sink))) = allLevelsApplied (map_of (bids b)) bs
         \<and> map_of (asks (fst (applyEvent b e sink))) = allLevelsApplied (map_of (asks b)) ks
         \<and> (noUnderflow bs
              \<longrightarrow> map_of (bids (fst (applyEvent b e sink))) = spec_applyLevels (map_of (bids b)) bs)
         \<and> (noUnderflow ks
              \<longrightarrow> map_of (asks (fst (applyEvent b e sink))) = spec_applyLevels (map_of (asks b)) ks)
         \<and> (distinct (map fst (bids b))
              \<longrightarrow> distinct (map fst (bids (fst (applyEvent b e sink)))))
         \<and> (distinct (map fst (asks b))
              \<longrightarrow> distinct (map fst (asks (fst (applyEvent b e sink)))))"
    by (simp add: applyEvent_contiguous [OF assms] map_of_applyLevels_all [symmetric]
        map_of_applyLevels_spec distinct_applyLevels)
  from whole single show ?thesis by blast
qed

lemma decimalZero_0: "decimalZero ''0''"
  by (simp add: decimalZero_def parse_defs)

lemma readsAsZero_2: "\<not> readsAsZero ''2''"
  unfolding isZeroQty_readsAsZero [symmetric] by (simp add: parse_defs)

theorem contiguous_event_applied_witness:
  "lastUpdateId exampleBook = Some 100 \<and> (100::nat) < 2 ^ 53
   \<and> ev_u removalEvent = Some 101 \<and> (100::nat) \<le> 101
   \<and> ev_U removalEvent = Some 95 \<and> (95::nat) \<le> 100 + 1
   \<and> ev_bids removalEvent = Some [(''10.0'', ''0'')] \<and> ev_asks removalEvent = Some []
   \<and> noUnderflow [(''10.0'', ''0'')] \<and> noUnderflow []
   \<and> snd (applyEvent exampleBook removalEvent (Some [])) = Some []
   \<and> lastUpdateId (fst (applyEvent exampleBook removalEvent (Some []))) = Some 101
   \<and> map_of (bids (fst (applyEvent exampleBook removalEvent (Some []))))
       = spec_applyLevels (map_of (bids exampleBook)) [(''10.0'', ''0'')]
   \<and> spec_applyLevels (map_of (bids exampleBook)) [(''10.0'', ''0'')] ''10.0'' = None
   \<and> map_of (asks (fst (applyEvent exampleBook removalEvent (Some [])))) ''10.1'' = Some ''1''
   \<and> distinct (map fst (bids (fst (applyEvent exampleBook removalEvent (Some [])))))
   \<and> decimalZero ''0'' \<and> ''9.5'' \<notin> fst ` set (bids exampleBook)
   \<and> applyLevels [(''9.5'', ''0'')] (bids exampleBook) = bids exampleBook
   \<and> map_of (applyLevels [(''10.0'', ''0'')] (bids exampleBook)) ''10.0'' = None
   \<and> \<not> readsAsZero ''2''
   \<and> map_of (applyLevels [(''10.0'', ''2'')] (bids exampleBook)) ''10.0'' = Some ''2''"
proof -
  have h: "lastUpdateId exampleBook = Some 100" "(100::nat) < 2 ^ 53"
    "ev_u removalEvent = Some 101" "(100::nat) \<le> 101"
    "ev_U removalEvent = Some 95" "(95::nat) \<le> 100 + 1"
    "ev_bids removalEvent = Some [(''10.0'', ''0'')]" "ev_asks removalEvent = Some []"
    by (simp_all add: exampleBook_eq removalEvent_def)
  have n: "noUnderflow [(''10.0'', ''0'')]" "noUnderflow []"
    by (simp_all add: noUnderflow_def decimalZero_0)
  have d: "distinct (map fst (bids exampleBook))" "distinct (map fst (asks exampleBook))"
    "''9.5'' \<notin> fst ` set (bids exampleBook)"
    by (simp_all add: exampleBook_eq)
  have s: "spec_applyLevels (map_of (bids exampleBook)) [(''10.0'', ''0'')] ''10.0'' = None"
    "spec_applyLevels (map_of (asks exampleBook)) [] ''10.1'' = Some ''1''"
    by (simp_all add: spec_applyLevels_def spec_applyLevel_def decimalZero_0 exampleBook_eq)
  note w1 = contiguous_event_applied [OF h, of "Some []" "''0''" "''9.5''" "bids exampleBook"]
  note w2 = contiguous_event_applied [OF h, of "Some []" "''0''" "''10.0''" "bids exampleBook"]
  note w3 = contiguous_event_applied [OF h, of "Some []" "''2''" "''10.0''" "bids exampleBook"]
  show ?thesis
    using w1 w2 w3 h n d s decimalZero_0 readsAsZero_2
    by simp
qed

text \<open>
  C8 as stated fails: with the cursor at 100, the event \<open>{U: 101, u: 102}\<close> carries
  the bid \<open>["9.5", "1e-400"]\<close> and the ask \<open>["10.1", "1e-400"]\<close>, whose quantity is
  not zero. The bid at 9.5 is not set and the ask at 10.1 is removed instead of
  overwritten.
\<close>

theorem tiny_quantity_removes_level:
  "lastUpdateId exampleBook = Some 100
   \<and> ev_U tinyQuantityEvent = Some 101 \<and> ev_u tinyQuantityEvent = Some 102
   \<and> \<not> decimalZero ''1e-400''
   \<and> asks exampleBook = [(''10.1'', ''1'')]
   \<and> applyEvent exampleBook tinyQuantityEvent (Some []) =
       (\<lparr>bids = [(''10.0'', ''1'')], asks = [], lastUpdateId = Some 102\<rparr>, Some [])"
  by (simp add: not_decimalZero_underflow exampleBook_eq tinyQuantityEvent_def run_defs
      applyUpdates_def applySide_def isZeroQty_underflow)

subsection \<open>Malformed events\<close>

text \<open>
  C4, as the code has it. A malformed event is not rejected as a whole, and
  nothing is raised. Without \<open>u\<close> the sequence checks and the cursor update are
  skipped, and the arrays the event does carry are applied all the same; without
  \<open>U\<close> no gap is tested or reported; a side that is not an array is left as it
  is, while the rest of the event is processed.
\<close>

theorem malformed_event_partly_applied:
  "(ev_u e = None \<longrightarrow>
      applyEvent b e sink =
        (b\<lparr>bids := applySide (ev_bids e) (bids b), asks := applySide (ev_asks e) (asks b)\<rparr>,
         sink))
   \<and> (ev_U e = None \<longrightarrow> snd (applyEvent b e sink) = sink)
   \<and> (ev_bids e = None \<longrightarrow> bids (fst (applyEvent b e sink)) = bids b)
   \<and> (ev_asks e = None \<longrightarrow> asks (fst (applyEvent b e sink)) = asks b)"
  by (auto simp: applyEvent_def applyUpdates_def applySide_def split: option.splits)

theorem malformed_event_partly_applied_witness:
  "ev_u no_u_event = None
   \<and> applyEvent exampleBook no_u_event (Some []) =
       (exampleBook\<lparr>bids := [(''10.0'', ''2'')]\<rparr>, Some [])
   \<and> ev_U noU_event = None \<and> ev_asks noU_event = None
   \<and> snd (applyEvent exampleBook noU_event (Some [])) = Some []
   \<and> asks (fst (applyEvent exampleBook noU_event (Some []))) = [(''10.1'', ''1'')]
   \<and> ev_bids (noU_event\<lparr>ev_bids := None\<rparr>) = None
   \<and> bids (fst (applyEvent exampleBook (noU_event\<lparr>ev_bids := None\<rparr>) (Some [])))
       = [(''10.0'', ''1'')]"
  using malformed_event_partly_applied [of no_u_event exampleBook "Some []"]
    malformed_event_partly_applied [of noU_event exampleBook "Some []"]
    malformed_event_partly_applied [of "noU_event\<lparr>ev_bids := None\<rparr>" exampleBook "Some []"]
  by (simp add: exampleBook_eq no_u_event_def noU_event_def applySide_def parse_defs)

text \<open>
  C4 as stated fails: the event \<open>{U: 101, bids: [["10.0", "2"]], asks: []}\<close>, which
  has no \<open>u\<close>, overwrites the bid at 10.0 of the example book.
\<close>

theorem malformed_event_mutates_book:
  "ev_u no_u_event = None
   \<and> bids exampleBook = [(''10.0'', ''1'')]
   \<and> bids (fst (applyEvent exampleBook no_u_event (Some []))) = [(''10.0'', ''2'')]"
  by (simp add: exampleBook_eq no_u_event_def run_defs applyUpdates_def applySide_def
      parse_defs)

subsection \<open>Zero-quantity entries\<close>

lemma noZero_update:
  "noZeroLevels side \<Longrightarrow> \<not> isZeroQty qty \<Longrightarrow> noZeroLevels (AList.update price qty side)"
  by (induction side) (auto simp: noZeroLevels_def)

lemma noZero_delete:
  "noZeroLevels side \<Longrightarrow> noZeroLevels (AList.delete price side)"
  by (induction side) (auto simp: noZeroLevels_def)

lemma noZero_applyLevels:
  "noZeroLevels side \<Longrightarrow> noZeroLevels (applyLevels levels side)"
  by (induction levels side rule: applyLevels.induct) (simp_all add: noZero_update noZero_delete)

lemma noZero_setLevels:
  "noZeroLevels levels \<Longrightarrow> noZeroLevels side \<Longrightarrow> noZeroLevels (setLevels levels side)"
proof (induction levels side rule: setLevels.induct)
  case (1 side)
  then show ?case by simp
next
  case (2 price qty rest side)
  from "2.prems"(1) have q: "\<not> isZeroQty qty" and r: "noZeroLevels rest"
    by (simp_all add: noZeroLevels_def)
  show ?case using "2.IH" [OF r noZero_update [OF "2.prems"(2) q]] by simp
qed

lemma noZero_applyEvent:
  "noZeroBook b \<Longrightarrow> noZeroBook (fst (applyEvent b e sink))"
  by (auto simp: applyEvent_def applyUpdates_def applySide_def noZeroBook_def noZero_applyLevels
      split: option.splits)

lemma noZero_applyEvents:
  "noZeroBook b \<Longrightarrow> noZeroBook (fst (applyEvents b es sink))"
proof (induction es arbitrary: b sink)
  case Nil
  then show ?case by simp
next
  case (Cons e es)
  obtain b1 sink1 where step: "applyEvent b e sink = (b1, sink1)"
    by (cases "applyEvent b e sink")
  with noZero_applyEvent [OF Cons.prems, of e sink] have "noZeroBook b1" by simp
  from Cons.IH [OF this, of sink1] step show ?case by simp
qed

lemma noZero_setFromSnapshot:
  assumes "noZeroLevels (snap_bids s)" and "noZeroLevels (snap_asks s)"
  shows "noZeroBook (setFromSnapshot b s)"
proof -
  have "noZeroLevels []" by (simp add: noZeroLevels_def)
  with assms show ?thesis
    by (simp add: setFromSnapshot_def noZeroBook_def noZero_setLevels)
qed

text \<open>
  C5, as the code has it. \<open>setFromSnapshot\<close> stores the levels of the snapshot as
  they are, and every \<open>applyEvent\<close> keeps a book free of zero-quantity entries
  free of them. So when the snapshot carries no zero-quantity level, no side
  holds one after the load or after any sequence of events applied to it.
\<close>

theorem no_zero_quantity_entries:
  assumes "noZeroLevels (snap_bids s)" and "noZeroLevels (snap_asks s)"
  shows "noZeroBook (setFromSnapshot b s)
         \<and> noZeroBook (fst (applyEvents (setFromSnapshot b s) es sink))"
  using noZero_setFromSnapshot [OF assms] noZero_applyEvents by blast

theorem no_zero_quantity_entries_witness:
  "noZeroLevels (snap_bids exampleSnapshot) \<and> noZeroLevels (snap_asks exampleSnapshot)
   \<and> noZeroBook (setFromSnapshot newLocalOrderBook exampleSnapshot)
   \<and> noZeroBook (fst (applyEvents (setFromSnapshot newLocalOrderBook exampleSnapshot)
                        replayEvents (Some [])))"
proof -
  have b: "noZeroLevels (snap_bids exampleSnapshot)"
    by (simp add: exampleSnapshot_def noZeroLevels_def parse_defs)
  have a: "noZeroLevels (snap_asks exampleSnapshot)"
    by (simp add: exampleSnapshot_def noZeroLevels_def parse_defs)
  show ?thesis
    using no_zero_quantity_entries [OF b a, of newLocalOrderBook replayEvents "Some []"] b a
    by simp
qed

text \<open>
  C5 as stated fails right after the load: a snapshot with the bid
  \<open>["10.0", "0"]\<close> leaves that zero-quantity entry in the bids map.
\<close>

theorem snapshot_zero_quantity_inserted:
  "snap_bids zeroSnapshot = [(''10.0'', ''0'')] \<and> isZeroQty ''0''
   \<and> bids (setFromSnapshot newLocalOrderBook zeroSnapshot) = [(''10.0'', ''0'')]
   \<and> \<not> noZeroBook (setFromSnapshot newLocalOrderBook zeroSnapshot)"
  by (simp add: setFromSnapshot_def zeroSnapshot_def noZeroBook_def noZeroLevels_def parse_defs)

subsection \<open>What the zero test decides\<close>

text \<open>
  C6, as the code has it. The removal decision is the floating-point comparison
  \<open>parseFloat(qty) === 0\<close>: a quantity counts as zero exactly when the decimal
  number read from it has magnitude at most \<open>2 ^ -1075\<close>, that is when it is an
  exact zero or is so small that its nearest double is zero. Prices are compared
  as strings: a level of an event touches the entry of its own price string and
  of no other.
\<close>

theorem zero_test_is_double_rounding:
  "(isZeroQty qty \<longleftrightarrow> (\<exists>v. mathValue (parseFloat qty) = Some v \<and> \<bar>v\<bar> \<le> 1 / 2 ^ 1075))
   \<and> (price' \<noteq> price \<longrightarrow>
        map_of (applyLevels [(price, qty)] side) price' = map_of side price')"
proof (intro conjI impI)
  show "isZeroQty qty \<longleftrightarrow> (\<exists>v. mathValue (parseFloat qty) = Some v \<and> \<bar>v\<bar> \<le> 1 / 2 ^ 1075)"
    unfolding isZeroQty_def by (rule isZeroNumber_mathValue)
next
  assume "price' \<noteq> price"
  then show "map_of (applyLevels [(price, qty)] side) price' = map_of side price'"
    by (simp add: AList.update_conv' AList.delete_conv')
qed

theorem zero_test_is_double_rounding_witness:
  "isZeroQty ''0.00000000'' \<and> mathValue (parseFloat ''0.00000000'') = Some 0
   \<and> ''10.00'' \<noteq> ''10.0''
   \<and> map_of (applyLevels [(''10.0'', ''0.00000000'')] (bids exampleBook)) ''10.00'' = None
   \<and> map_of (applyLevels [(''10.00'', ''4'')] (bids exampleBook)) ''10.0'' = Some ''1''"
  using zero_test_is_double_rounding [of "''0.00000000''" "''10.00''" "''10.0''" "bids exampleBook"]
    zero_test_is_double_rounding [of "''4''" "''10.0''" "''10.00''" "bids exampleBook"]
  by (simp add: exampleBook_eq) (simp add: parse_defs)

text \<open>
  C6 as stated fails: the quantity \<open>"1e-400"\<close> is a decimal number different from
  zero, the test takes it for zero, and an event carrying it removes the bid at
  10.0 of the example book.
\<close>

theorem nonzero_quantity_taken_for_zero:
  "parseFloat ''1e-400'' = Decimal False 1 (- 400)
   \<and> mathValue (parseFloat ''1e-400'') \<noteq> Some 0
   \<and> isZeroQty ''1e-400''
   \<and> bids exampleBook = [(''10.0'', ''1'')]
   \<and> bids (fst (applyEvent exampleBook underflowEvent (Some []))) = []"
proof -
  have v: "mathValue (Decimal False 1 (- 400)) \<noteq> Some 0"
    by simp
  have b: "bids (fst (applyEvent exampleBook underflowEvent (Some []))) = []"
    by (simp add: exampleBook_eq underflowEvent_def run_defs applyUpdates_def applySide_def
        isZeroQty_underflow)
  show ?thesis
    using v b by (simp add: parseFloat_underflow isZeroQty_underflow exampleBook_eq)
qed

section \<open>Properties of the controller\<close>

lemma liveController_eq:
  "liveController =
     \<lparr>errors = [], messageCount = 0, eventBuffer = [], snapshotReceived = True,
      localOrderBook = exampleBook\<rparr>"
  by (simp add: liveController_def syncFromSnapshot_def initialController_def Let_def
      exampleBook_def)

lemma bufferingController_eq:
  "bufferingController =
     \<lparr>errors = [], messageCount = 1, eventBuffer = [bufferedEvent50], snapshotReceived = False,
      localOrderBook = newLocalOrderBook\<rparr>"
  by (simp add: bufferingController_def onMessage_def initialController_def Let_def)

text \<open>
  C1 does not hold of the code. The controller is live on the example book
  (cursor 100) and receives \<open>{U: 105, u: 110}\<close>: the message "... out of sequence.
  Restarting sync." is pushed and that is all. The flag \<open>snapshotReceived\<close> stays
  set, the buffer stays empty, the book is kept as it is, no snapshot is
  requested; the next event of the stream, \<open>{U: 111, u: 115}\<close>, is dropped in the
  same way, and so is every later one. A gap met while the buffered events are
  replayed (\<open>{U: 95, u: 101}\<close> then \<open>{U: 105, u: 110}\<close> after the same snapshot) ends
  the same way: the message is pushed and the controller goes live at cursor 101.
\<close>

theorem gap_event_dropped_without_resync:
  "snapshotReceived liveController
   \<and> localOrderBook liveController = exampleBook
   \<and> onMessage liveController gapEvent =
       liveController\<lparr>errors := [gapMessage 105 101], messageCount := 1\<rparr>
   \<and> onMessages liveController [gapEvent, followingEvent] =
       liveController\<lparr>errors := [gapMessage 105 101, gapMessage 111 101], messageCount := 2\<rparr>
   \<and> syncFromSnapshot (onMessages initialController [removalEvent, gapEvent]) exampleSnapshot =
       \<lparr>errors = [gapMessage 105 102], messageCount = 2, eventBuffer = [],
        snapshotReceived = True,
        localOrderBook = \<lparr>bids = [], asks = [(''10.1'', ''1'')], lastUpdateId = Some 101\<rparr>\<rparr>"
proof -
  have live: "onMessages liveController [gapEvent, followingEvent] =
       liveController\<lparr>errors := [gapMessage 105 101, gapMessage 111 101], messageCount := 2\<rparr>"
    by (simp add: liveController_eq onMessage_def ctlApplyEvent_def run_defs pushError_def
        exampleBook_eq gapEvent_def followingEvent_def Let_def)
  have one: "onMessage liveController gapEvent =
       liveController\<lparr>errors := [gapMessage 105 101], messageCount := 1\<rparr>"
    by (simp add: liveController_eq onMessage_def ctlApplyEvent_def run_defs pushError_def
        exampleBook_eq gapEvent_def Let_def)
  have replay: "syncFromSnapshot (onMessages initialController [removalEvent, gapEvent])
       exampleSnapshot =
       \<lparr>errors = [gapMessage 105 102], messageCount = 2, eventBuffer = [],
        snapshotReceived = True,
        localOrderBook = \<lparr>bids = [], asks = [(''10.1'', ''1'')], lastUpdateId = Some 101\<rparr>\<rparr>"
    by (simp add: syncFromSnapshot_def onMessage_def initialController_def exampleSnapshot_def
        setFromSnapshot_def newLocalOrderBook_def alreadyInSnapshot_def removalEvent_def
        gapEvent_def ctlApplyEvent_def run_defs applyUpdates_def applySide_def
        pushError_def Let_def parse_defs)
  show ?thesis using live one replay by (simp add: liveController_eq)
qed

subsection \<open>The snapshot loop\<close>

lemmas fetchLoop_induct = fetchLoop.raw_induct [rotated 1, consumes 1, case_names step]

lemma onMessages_buffering:
  "\<not> snapshotReceived c \<Longrightarrow>
     onMessages c evs =
       c\<lparr>messageCount := messageCount c + length evs, eventBuffer := eventBuffer c @ evs\<rparr>"
  by (induction evs arbitrary: c) (simp_all add: onMessage_def Let_def)

lemma fetchLoop_stale_step:
  assumes "env n = (arrived, Fetched snapshot)"
    and "snapshotStale (onMessages c arrived) snapshot"
  shows "fetchLoop env n c = fetchLoop env (Suc n) (onMessages c arrived)"
  using assms by (subst fetchLoop.simps) simp

lemma fetchLoop_fresh_step:
  assumes "env n = (arrived, Fetched snapshot)"
    and "\<not> snapshotStale (onMessages c arrived) snapshot"
  shows "fetchLoop env n c = Some (Inr (snapshot, onMessages c arrived))"
  using assms by (subst fetchLoop.simps) simp

lemma fetchLoop_error_step:
  assumes "env n = (arrived, TransportError)"
  shows "fetchLoop env n c = Some (Inl SnapshotFetchFailed)"
  using assms by (subst fetchLoop.simps) simp

lemma snapshotStale_iff:
  "eventBuffer c = e0 # es \<Longrightarrow> ev_U e0 = Some U0 \<Longrightarrow>
     snapshotStale c snapshot \<longleftrightarrow> snap_lastUpdateId snapshot < U0"
  by (auto simp: snapshotStale_def)

lemma not_stale_first_U:
  assumes "\<not> snapshotStale c snapshot" and "eventBuffer c = e0 # es" and "ev_U e0 = Some U0"
  shows "U0 \<le> snap_lastUpdateId snapshot"
  using assms by (auto simp: snapshotStale_def)

text \<open>Whatever the loop returns as accepted was not stale when it was checked.\<close>

lemma fetchLoop_accepts_fresh:
  "fetchLoop env n c = Some r \<Longrightarrow>
     (\<forall>snapshot c'. r = Inr (snapshot, c') \<longrightarrow> \<not> snapshotStale c' snapshot)"
proof (induction env n c r rule: fetchLoop_induct)
  case (step f env n c r)
  obtain arrived res where en: "env n = (arrived, res)" by (cases "env n")
  show ?case
  proof (cases res)
    case TransportError
    with step.hyps en show ?thesis by auto
  next
    case (Fetched snapshot)
    show ?thesis
    proof (cases "snapshotStale (onMessages c arrived) snapshot")
      case True
      with step.hyps en Fetched
      have "f env (Suc n) (onMessages c arrived) = Some r" by simp
      then show ?thesis by (rule step.IH)
    next
      case False
      with step.hyps en Fetched show ?thesis by auto
    qed
  qed
qed

text \<open>While the controller is buffering and every answer is older than the
  first buffered event, no iteration leaves the loop.\<close>

lemma fetchLoop_never_returns:
  "fetchLoop env n c = Some r \<Longrightarrow>
     (\<forall>k. \<exists>arrived s. env k = (arrived, Fetched s) \<and> snap_lastUpdateId s < U0) \<longrightarrow>
     ev_U e0 = Some U0 \<longrightarrow>
     \<not> (\<not> snapshotReceived c \<and> (\<exists>es. eventBuffer c = e0 # es))"
proof (induction env n c r rule: fetchLoop_induct)
  case (step f env n c r)
  show ?case
  proof (intro impI notI)
    assume stale: "\<forall>k. \<exists>arrived s. env k = (arrived, Fetched s) \<and> snap_lastUpdateId s < U0"
      and U0: "ev_U e0 = Some U0"
      and inv: "\<not> snapshotReceived c \<and> (\<exists>es. eventBuffer c = e0 # es)"
    from inv obtain es where es: "eventBuffer c = e0 # es" by blast
    from stale obtain arrived s where
      en: "env n = (arrived, Fetched s)" and lt: "snap_lastUpdateId s < U0"
      by blast
    let ?c' = "onMessages c arrived"
    have c': "?c' = c\<lparr>messageCount := messageCount c + length arrived,
                       eventBuffer := eventBuffer c @ arrived\<rparr>"
      using inv by (simp add: onMessages_buffering)
    have buf: "eventBuffer ?c' = e0 # (es @ arrived)" by (simp add: c' es)
    have nr: "\<not> snapshotReceived ?c'" using inv by (simp add: c')
    have "snapshotStale ?c' s"
      using snapshotStale_iff [OF buf U0] lt by simp
    with step.hyps en have "f env (Suc n) ?c' = Some r" by simp
    from step.IH [OF this] stale U0 nr buf show False by blast
  qed
qed

lemma fetchLoop_diverges:
  assumes "eventBuffer c = e0 # es" and "ev_U e0 = Some U0" and "\<not> snapshotReceived c"
    and "\<forall>k. \<exists>arrived s. env k = (arrived, Fetched s) \<and> snap_lastUpdateId s < U0"
  shows "fetchLoop env n c = None"
proof (cases "fetchLoop env n c")
  case None
  then show ?thesis .
next
  case (Some r)
  from fetchLoop_never_returns [OF Some, of U0 e0] assms
  show ?thesis by blast
qed

lemma fetchAndSyncSnapshot_Inr:
  assumes "fetchAndSyncSnapshot env c = Some (Inr c'')"
  shows "\<exists>snapshot c'. fetchLoop env 0 c = Some (Inr (snapshot, c'))
           \<and> c'' = syncFromSnapshot c' snapshot \<and> \<not> snapshotStale c' snapshot"
proof (cases "fetchLoop env 0 c")
  case None
  with assms show ?thesis by (simp add: fetchAndSyncSnapshot_def)
next
  case (Some r)
  show ?thesis
  proof (cases r)
    case (Inl err)
    with Some assms show ?thesis by (simp add: fetchAndSyncSnapshot_def)
  next
    case (Inr p)
    obtain snapshot c' where p: "p = (snapshot, c')" by (cases p)
    from Some Inr p assms have "c'' = syncFromSnapshot c' snapshot"
      by (simp add: fetchAndSyncSnapshot_def)
    moreover from fetchLoop_accepts_fresh [OF Some] Inr p
    have "\<not> snapshotStale c' snapshot" by blast
    ultimately show ?thesis using Some Inr p by blast
  qed
qed

text \<open>
  C3, as the code has it. The loop has no retry ceiling and reports no staleness
  failure. When the controller is buffering, its first buffered event has
  \<open>U = U0\<close> and every answer of the source is a snapshot older than \<open>U0\<close>,
  \<open>fetchAndSyncSnapshot\<close> never returns. The loop is left only by a snapshot that
  passes the check, or by the failure of the request itself.
\<close>

theorem snapshot_loop_unbounded:
  "(eventBuffer c = e0 # es \<and> ev_U e0 = Some U0 \<and> \<not> snapshotReceived c
      \<and> (\<forall>k. \<exists>arrived s. env k = (arrived, Fetched s) \<and> snap_lastUpdateId s < U0)
      \<longrightarrow> fetchAndSyncSnapshot env c = None)
   \<and> (env' n = (arrived', Fetched s') \<and> \<not> snapshotStale (onMessages c' arrived') s'
      \<longrightarrow> fetchLoop env' n c' = Some (Inr (s', onMessages c' arrived')))
   \<and> (env' n = (arrived', TransportError)
      \<longrightarrow> fetchLoop env' n c' = Some (Inl SnapshotFetchFailed))"
proof (intro conjI impI)
  assume "eventBuffer c = e0 # es \<and> ev_U e0 = Some U0 \<and> \<not> snapshotReceived c
      \<and> (\<forall>k. \<exists>arrived s. env k = (arrived, Fetched s) \<and> snap_lastUpdateId s < U0)"
  then have "fetchLoop env 0 c = None"
    using fetchLoop_diverges [of c e0 es U0 env 0] by blast
  then show "fetchAndSyncSnapshot env c = None" by (simp add: fetchAndSyncSnapshot_def)
next
  assume "env' n = (arrived', Fetched s') \<and> \<not> snapshotStale (onMessages c' arrived') s'"
  then show "fetchLoop env' n c' = Some (Inr (s', onMessages c' arrived'))"
    using fetchLoop_fresh_step by blast
next
  assume "env' n = (arrived', TransportError)"
  then show "fetchLoop env' n c' = Some (Inl SnapshotFetchFailed)"
    by (rule fetchLoop_error_step)
qed

theorem snapshot_loop_unbounded_witness:
  "eventBuffer bufferingController = [bufferedEvent50] \<and> ev_U bufferedEvent50 = Some 50
   \<and> \<not> snapshotReceived bufferingController
   \<and> (\<forall>k. \<exists>arrived s. laggingEnvironment k = (arrived, Fetched s) \<and> snap_lastUpdateId s < 50)
   \<and> fetchAndSyncSnapshot laggingEnvironment bufferingController = None
   \<and> refetchEnvironment 1 = ([], Fetched snapshot60)
   \<and> \<not> snapshotStale (onMessages bufferingController []) snapshot60
   \<and> fetchLoop refetchEnvironment 1 bufferingController
       = Some (Inr (snapshot60, bufferingController))
   \<and> failingEnvironment 0 = ([], TransportError)
   \<and> fetchLoop failingEnvironment 0 bufferingController = Some (Inl SnapshotFetchFailed)"
proof -
  have h1: "eventBuffer bufferingController = [bufferedEvent50]"
    "\<not> snapshotReceived bufferingController"
    by (simp_all add: bufferingController_eq)
  have h2: "ev_U bufferedEvent50 = Some 50" by (simp add: bufferedEvent50_def)
  have h3: "\<forall>k. \<exists>arrived s. laggingEnvironment k = (arrived, Fetched s) \<and> snap_lastUpdateId s < 50"
  proof
    fix k :: nat
    have "k mod 2 < 2" by simp
    then show "\<exists>arrived s. laggingEnvironment k = (arrived, Fetched s) \<and> snap_lastUpdateId s < 50"
      by (simp add: laggingEnvironment_def)
  qed
  have h4: "refetchEnvironment 1 = ([], Fetched snapshot60)"
    by (simp add: refetchEnvironment_def)
  have h5: "\<not> snapshotStale (onMessages bufferingController []) snapshot60"
    by (simp add: snapshotStale_def bufferingController_eq bufferedEvent50_def snapshot60_def)
  have h6: "failingEnvironment 0 = ([], TransportError)"
    by (simp add: failingEnvironment_def)
  show ?thesis
    using snapshot_loop_unbounded [of bufferingController bufferedEvent50 "[]" 50
        laggingEnvironment refetchEnvironment 1 "[]" snapshot60 bufferingController]
      snapshot_loop_unbounded [of bufferingController bufferedEvent50 "[]" 50
        laggingEnvironment failingEnvironment 0 "[]" snapshot60 bufferingController]
      h1 h2 h3 h4 h5 h6
    by simp
qed

text \<open>
  C3 as stated fails: with the first buffered event at \<open>U = 50\<close> and a source that
  answers every request with update id 40, \<open>fetchAndSyncSnapshot\<close> never returns,
  whatever number of re-fetches one allows; it reports no failure.
\<close>

theorem stale_source_loops_forever:
  "fetchAndSyncSnapshot staleEnvironment bufferingController = None"
proof -
  have "fetchLoop staleEnvironment 0 bufferingController = None"
  proof (rule fetchLoop_diverges)
    show "eventBuffer bufferingController = bufferedEvent50 # []"
      by (simp add: bufferingController_eq)
    show "ev_U bufferedEvent50 = Some 50" by (simp add: bufferedEvent50_def)
    show "\<not> snapshotReceived bufferingController" by (simp add: bufferingController_eq)
    show "\<forall>k. \<exists>arrived s. staleEnvironment k = (arrived, Fetched s) \<and> snap_lastUpdateId s < 50"
      by (simp add: staleEnvironment_def snapshot40_def exampleSnapshot_def)
  qed
  then show ?thesis by (simp add: fetchAndSyncSnapshot_def)
qed

text \<open>
  C9. A fetched snapshot whose \<open>lastUpdateId\<close> is below the \<open>U\<close> of the first
  buffered event is not loaded: the loop goes on with the next request, and the
  book of a buffering controller is as it was. When \<open>fetchAndSyncSnapshot\<close>
  returns a controller, the book was loaded from the snapshot the loop accepted,
  and that snapshot has \<open>lastUpdateId\<close> at least the \<open>U\<close> of the first buffered
  event.
\<close>

theorem stale_snapshot_rejected:
  "(env n = (arrived, Fetched snapshot) \<and> eventBuffer (onMessages c arrived) = e0 # es
      \<and> ev_U e0 = Some U0 \<and> snap_lastUpdateId snapshot < U0
      \<longrightarrow> fetchLoop env n c = fetchLoop env (Suc n) (onMessages c arrived)
          \<and> (\<not> snapshotReceived c \<longrightarrow> localOrderBook (onMessages c arrived) = localOrderBook c))
   \<and> (fetchAndSyncSnapshot env c = Some (Inr c'')
      \<longrightarrow> (\<exists>snapshot' c'. fetchLoop env 0 c = Some (Inr (snapshot', c'))
             \<and> c'' = syncFromSnapshot c' snapshot'
             \<and> (\<forall>e0' es' U0'. eventBuffer c' = e0' # es' \<longrightarrow> ev_U e0' = Some U0'
                   \<longrightarrow> U0' \<le> snap_lastUpdateId snapshot')))"
proof (intro conjI impI)
  assume h: "env n = (arrived, Fetched snapshot) \<and> eventBuffer (onMessages c arrived) = e0 # es
      \<and> ev_U e0 = Some U0 \<and> snap_lastUpdateId snapshot < U0"
  then have "snapshotStale (onMessages c arrived) snapshot"
    using snapshotStale_iff [of "onMessages c arrived" e0 es U0 snapshot] by blast
  with h show "fetchLoop env n c = fetchLoop env (Suc n) (onMessages c arrived)"
    using fetchLoop_stale_step by blast
next
  assume "\<not> snapshotReceived c"
  then show "localOrderBook (onMessages c arrived) = localOrderBook c"
    by (simp add: onMessages_buffering)
next
  assume "fetchAndSyncSnapshot env c = Some (Inr c'')"
  from fetchAndSyncSnapshot_Inr [OF this]
  obtain snapshot' c' where r: "fetchLoop env 0 c = Some (Inr (snapshot', c'))"
    "c'' = syncFromSnapshot c' snapshot'" "\<not> snapshotStale c' snapshot'"
    by blast
  from r(3) have "\<forall>e0' es' U0'. eventBuffer c' = e0' # es' \<longrightarrow> ev_U e0' = Some U0'
                   \<longrightarrow> U0' \<le> snap_lastUpdateId snapshot'"
    using not_stale_first_U by blast
  with r(1,2) show "\<exists>snapshot' c'. fetchLoop env 0 c = Some (Inr (snapshot', c'))
             \<and> c'' = syncFromSnapshot c' snapshot'
             \<and> (\<forall>e0' es' U0'. eventBuffer c' = e0' # es' \<longrightarrow> ev_U e0' = Some U0'
                   \<longrightarrow> U0' \<le> snap_lastUpdateId snapshot')"
    by blast
qed

lemma refetch_messages:
  "onMessages initialController [bufferedEvent50, bufferedEvent56] = refetchedController"
  by (simp add: onMessage_def initialController_def refetchedController_def Let_def)

lemma refetch_loop:
  "fetchLoop refetchEnvironment 0 initialController = Some (Inr (snapshot60, refetchedController))"
proof -
  have e0: "refetchEnvironment 0 = ([bufferedEvent50, bufferedEvent56], Fetched snapshot40)"
    by (simp add: refetchEnvironment_def)
  have e1: "refetchEnvironment (Suc 0) = ([], Fetched snapshot60)"
    by (simp add: refetchEnvironment_def)
  have s0: "snapshotStale (onMessages initialController [bufferedEvent50, bufferedEvent56]) snapshot40"
    by (simp only: refetch_messages)
      (simp add: snapshotStale_def refetchedController_def bufferedEvent50_def snapshot40_def
        exampleSnapshot_def)
  have s1: "\<not> snapshotStale (onMessages refetchedController []) snapshot60"
    by (simp add: snapshotStale_def refetchedController_def bufferedEvent50_def snapshot60_def
        exampleSnapshot_def)
  have "fetchLoop refetchEnvironment 0 initialController =
          fetchLoop refetchEnvironment (Suc 0) refetchedController"
    using fetchLoop_stale_step [of refetchEnvironment 0 _ _ initialController, OF e0 s0]
    by (simp only: refetch_messages)
  also have "\<dots> = Some (Inr (snapshot60, onMessages refetchedController []))"
    by (rule fetchLoop_fresh_step [of refetchEnvironment "Suc 0" _ _ refetchedController, OF e1 s1])
  finally show ?thesis by simp
qed

lemma refetch_sync:
  "syncFromSnapshot refetchedController snapshot60 = syncedController"
  by (simp add: syncFromSnapshot_def refetchedController_def snapshot60_def exampleSnapshot_def
      setFromSnapshot_def newLocalOrderBook_def alreadyInSnapshot_def bufferedEvent50_def
      bufferedEvent56_def ctlApplyEvent_def run_defs applyUpdates_def applySide_def
      syncedController_def Let_def parse_defs)

theorem stale_snapshot_rejected_witness:
  "refetchEnvironment 0 = ([bufferedEvent50, bufferedEvent56], Fetched snapshot40)
   \<and> eventBuffer (onMessages initialController [bufferedEvent50, bufferedEvent56])
       = bufferedEvent50 # [bufferedEvent56]
   \<and> ev_U bufferedEvent50 = Some 50 \<and> snap_lastUpdateId snapshot40 < 50
   \<and> fetchLoop refetchEnvironment 0 initialController
       = fetchLoop refetchEnvironment (Suc 0)
           (onMessages initialController [bufferedEvent50, bufferedEvent56])
   \<and> localOrderBook (onMessages initialController [bufferedEvent50, bufferedEvent56])
       = newLocalOrderBook
   \<and> fetchAndSyncSnapshot refetchEnvironment initialController = Some (Inr syncedController)
   \<and> fetchLoop refetchEnvironment 0 initialController
       = Some (Inr (snapshot60, refetchedController))
   \<and> 50 \<le> snap_lastUpdateId snapshot60"
proof -
  have h1: "refetchEnvironment 0 = ([bufferedEvent50, bufferedEvent56], Fetched snapshot40)"
    by (simp add: refetchEnvironment_def)
  have h2: "eventBuffer (onMessages initialController [bufferedEvent50, bufferedEvent56])
       = bufferedEvent50 # [bufferedEvent56]"
    by (simp only: refetch_messages) (simp add: refetchedController_def)
  have h3: "ev_U bufferedEvent50 = Some 50" "snap_lastUpdateId snapshot40 < 50"
    "\<not> snapshotReceived initialController" "localOrderBook initialController = newLocalOrderBook"
    "50 \<le> snap_lastUpdateId snapshot60"
    by (simp_all add: bufferedEvent50_def snapshot40_def snapshot60_def exampleSnapshot_def
        initialController_def)
  have h4: "fetchAndSyncSnapshot refetchEnvironment initialController = Some (Inr syncedController)"
    by (simp add: fetchAndSyncSnapshot_def refetch_loop refetch_sync)
  show ?thesis
    using stale_snapshot_rejected [of refetchEnvironment 0 "[bufferedEvent50, bufferedEvent56]"
        snapshot40 initialController bufferedEvent50 "[bufferedEvent56]" 50 syncedController]
      h1 h2 h3 h4 refetch_loop
    by simp
qed

end
